theory Spec2Isabelle
  imports Main
begin

section \<open>Python values used by \<open>app/models.py\<close>\<close>

text \<open>
  A Python \<open>str\<close> is a sequence of Unicode code points and \<open>len\<close> counts code points,
  so a string is a list of code points here. \<open>py\<close> turns an ASCII literal into such a list.
\<close>

type_synonym codepoint = nat
type_synonym pystr = "codepoint list"

definition py :: "string \<Rightarrow> pystr" where
  "py s = map of_char s"

text \<open>The exceptions that the model layer raises or lets through.\<close>

datatype error = ValueError | AttributeError | IntegrityError | InvalidRequestError

text \<open>
  Timestamps are readings of the clock (\<open>datetime.now(UTC)\<close>); every operation that reads
  the clock takes the reading as its argument \<open>now\<close>.
\<close>

type_synonym datetime = nat

subsection \<open>The two regular expressions\<close>

text \<open>
  The class \<^verbatim>\<open>\S\<close> of a \<open>str\<close> pattern is every code point that is not Unicode
  whitespace; the whitespace code points are those of \<open>str.isspace\<close>.
\<close>

definition isspace :: "codepoint \<Rightarrow> bool" where
  "isspace c \<longleftrightarrow>
     (9 \<le> c \<and> c \<le> 13) \<or> (28 \<le> c \<and> c \<le> 32) \<or> c = 133 \<or> c = 160 \<or> c = 5760 \<or>
     (8192 \<le> c \<and> c \<le> 8202) \<or> c = 8232 \<or> c = 8233 \<or> c = 8239 \<or> c = 8287 \<or> c = 12288"

text \<open>
  The fragment of the \<open>re\<close> syntax that the two patterns use: the anchors \<open>^\<close> and \<open>$\<close>,
  the class \<^verbatim>\<open>\S\<close>, a literal character, and \<open>+\<close> on a single-character item.
\<close>

datatype atom = NonSpace | Lit codepoint

datatype node = Bol | Eol | Single atom | Plus atom

type_synonym regex = "node list"

fun atom_ok :: "atom \<Rightarrow> codepoint \<Rightarrow> bool" where
  "atom_ok NonSpace c = (\<not> isspace c)"
| "atom_ok (Lit k) c = (c = k)"

text \<open>
  \<open>match_at r pos s\<close>: the pattern \<open>r\<close> matches some prefix of \<open>s\<close>, where \<open>s\<close> is what is
  left of the subject from position \<open>pos\<close>. Without flags, \<open>^\<close> matches at position 0 only
  and \<open>$\<close> matches at the end of the subject and also just before a newline that is its
  last character. Backtracking tries every length of a \<open>+\<close>.
\<close>

fun match_at :: "regex \<Rightarrow> nat \<Rightarrow> pystr \<Rightarrow> bool" where
  "match_at [] pos s = True"
| "match_at (Bol # r) pos s = (pos = 0 \<and> match_at r pos s)"
| "match_at (Eol # r) pos s = ((s = [] \<or> s = [10]) \<and> match_at r pos s)"
| "match_at (Single a # r) pos [] = False"
| "match_at (Single a # r) pos (c # cs) = (atom_ok a c \<and> match_at r (Suc pos) cs)"
| "match_at (Plus a # r) pos [] = False"
| "match_at (Plus a # r) pos (c # cs) =
     (atom_ok a c \<and> (match_at (Plus a # r) (Suc pos) cs \<or> match_at r (Suc pos) cs))"

text \<open>\<open>bool(REGEX.match(s))\<close>: \<open>match\<close> tries the pattern at the start of the subject.\<close>

definition re_match :: "regex \<Rightarrow> pystr \<Rightarrow> bool" where
  "re_match r s = match_at r 0 s"

text \<open>\<^verbatim>\<open>EMAIL_REGEX = re.compile(r"^\S+@\S+\.\S+$")\<close>\<close>

definition EMAIL_REGEX :: regex where
  "EMAIL_REGEX =
     [Bol, Plus NonSpace, Single (Lit 64), Plus NonSpace, Single (Lit 46), Plus NonSpace, Eol]"

text \<open>\<^verbatim>\<open>USERNAME_REGEX = re.compile(r"^\S+$")\<close>\<close>

definition USERNAME_REGEX :: regex where
  "USERNAME_REGEX = [Bol, Plus NonSpace, Eol]"

subsection \<open>\<open>check_length\<close>\<close>

text \<open>
  \<open>bool(attribute) and len(attribute) <= length\<close>; a string is falsy exactly when it is
  empty. The \<open>except\<close> branch is for values without a length and is never taken on a string.
\<close>

definition check_length :: "pystr \<Rightarrow> nat \<Rightarrow> bool" where
  "check_length attribute n \<longleftrightarrow> attribute \<noteq> [] \<and> length attribute \<le> n"

section \<open>User\<close>

text \<open>
  The columns of \<open>User\<close>. A column without a value is \<open>None\<close>; the property \<open>username\<close>
  reads \<open>_username\<close> and \<open>email\<close> reads \<open>_email\<close>, so the two fields carry the names of
  the properties.
\<close>

record User =
  user_id :: "nat option"
  username :: "pystr option"
  email :: "pystr option"
  password_hash :: "pystr option"
  member_since :: "datetime option"
  last_seen :: "datetime option"
  is_admin :: "bool option"

text \<open>\<open>User()\<close> with no keyword argument: no column has a value yet.\<close>

definition new_User :: User where
  "new_User = \<lparr>user_id = None, username = None, email = None, password_hash = None,
     member_since = None, last_seen = None, is_admin = None\<rparr>"

definition username_setter :: "User \<Rightarrow> pystr \<Rightarrow> error + User" where
  "username_setter self name =
     (let is_valid_length = check_length name 64 in
      if \<not> is_valid_length \<or> \<not> re_match USERNAME_REGEX name then Inl ValueError
      else Inr (self\<lparr>username := Some name\<rparr>))"

definition email_setter :: "User \<Rightarrow> pystr \<Rightarrow> error + User" where
  "email_setter self addr =
     (if \<not> check_length addr 64 \<or> \<not> re_match EMAIL_REGEX addr then Inl ValueError
      else Inr (self\<lparr>email := Some addr\<rparr>))"

text \<open>The getter of \<open>password\<close> raises, whatever the object holds.\<close>

definition password :: "User \<Rightarrow> error + pystr" where
  "password self = Inl AttributeError"

text \<open>
  \<open>generate_password_hash\<close> and \<open>check_password_hash\<close> belong to \<open>werkzeug.security\<close>,
  not to this program, so both are parameters: \<open>gen salt password\<close> is the digest string
  that \<open>generate_password_hash\<close> returns when it draws \<open>salt\<close>, and \<open>chk pwhash password\<close>
  is what \<open>check_password_hash\<close> answers on a digest string.
\<close>

definition password_setter ::
  "('salt \<Rightarrow> pystr \<Rightarrow> pystr) \<Rightarrow> 'salt \<Rightarrow> User \<Rightarrow> pystr \<Rightarrow> error + User" where
  "password_setter gen salt self pw =
     (if pw = [] then Inl ValueError
      else let hashed_password = gen salt pw in
        if length hashed_password > 256 then Inl ValueError
        else Inr (self\<lparr>password_hash := Some hashed_password\<rparr>))"

text \<open>
  \<open>check_password_hash\<close> starts by calling a \<open>str\<close> method on its first argument
  (\<open>pwhash.count\<close>, in later releases \<open>pwhash.split\<close>), which on \<open>None\<close> raises
  \<open>AttributeError\<close>; nothing catches it.
\<close>

definition check_password_hash ::
  "(pystr \<Rightarrow> pystr \<Rightarrow> bool) \<Rightarrow> pystr option \<Rightarrow> pystr \<Rightarrow> error + bool" where
  "check_password_hash chk pwhash pw =
     (case pwhash of None \<Rightarrow> Inl AttributeError | Some h \<Rightarrow> Inr (chk h pw))"

definition verify_password :: "(pystr \<Rightarrow> pystr \<Rightarrow> bool) \<Rightarrow> User \<Rightarrow> pystr \<Rightarrow> error + bool" where
  "verify_password chk self pw = check_password_hash chk (password_hash self) pw"

section \<open>TodoList\<close>

text \<open>
  \<open>title\<close> reads \<open>_title\<close>. \<open>created_at\<close> and \<open>creator\<close> are columns of the item class as
  well, so here they are \<open>list_created_at\<close> and \<open>list_creator\<close>.
\<close>

record TodoList =
  list_id :: "nat option"
  title :: "pystr option"
  list_created_at :: "datetime option"
  list_creator :: "pystr option"

text \<open>
  \<open>x or d\<close>: \<open>None\<close> and the empty string are falsy, every other string is truthy; a
  \<open>datetime\<close> is always truthy.
\<close>

definition str_or :: "pystr option \<Rightarrow> pystr \<Rightarrow> pystr" where
  "str_or x d = (case x of None \<Rightarrow> d | Some s \<Rightarrow> if s = [] then d else s)"

definition datetime_or :: "datetime option \<Rightarrow> datetime \<Rightarrow> datetime" where
  "datetime_or x d = (case x of None \<Rightarrow> d | Some t \<Rightarrow> t)"

definition title_setter :: "TodoList \<Rightarrow> pystr \<Rightarrow> error + TodoList" where
  "title_setter self t =
     (if \<not> check_length t 128 then Inl ValueError else Inr (self\<lparr>title := Some t\<rparr>))"

text \<open>
  \<open>TodoList.__init__(title=None, creator=None, created_at=None)\<close>: the three assignments in
  the order of the source, on an object none of whose columns has a value; the first one
  goes through the setter and may raise.
\<close>

definition TodoList_init ::
  "datetime \<Rightarrow> pystr option \<Rightarrow> pystr option \<Rightarrow> datetime option \<Rightarrow> error + TodoList" where
  "TodoList_init now title0 creator0 created_at0 =
     (case title_setter \<lparr>list_id = None, title = None, list_created_at = None, list_creator = None\<rparr>
             (str_or title0 (py ''untitled'')) of
        Inl e \<Rightarrow> Inl e
      | Inr self \<Rightarrow>
          Inr (self\<lparr>list_creator := creator0,
                     list_created_at := Some (datetime_or created_at0 now)\<rparr>))"

section \<open>Todolist, the item of a list\<close>

record Todolist =
  todo_id :: "nat option"
  description :: "pystr option"
  created_at :: "datetime option"
  finished_at :: "datetime option"
  is_finished :: "bool option"
  creator :: "pystr option"
  Todolist_id :: "nat option"

text \<open>
  \<open>Todolist.__init__(description, Todolist_id, creator=None, created_at=None)\<close> assigns four
  columns; \<open>finished_at\<close> and \<open>is_finished\<close> have no value until the row is inserted.
\<close>

definition Todolist_init ::
  "datetime \<Rightarrow> pystr \<Rightarrow> nat \<Rightarrow> pystr option \<Rightarrow> datetime option \<Rightarrow> Todolist" where
  "Todolist_init now description0 Todolist_id0 creator0 created_at0 =
     \<lparr>todo_id = None, description = Some description0,
      created_at = Some (datetime_or created_at0 now), finished_at = None, is_finished = None,
      creator = creator0, Todolist_id = Some Todolist_id0\<rparr>"

text \<open>\<open>"finished" if self.is_finished else "open"\<close>: \<open>None\<close> is falsy.\<close>

definition status :: "Todolist \<Rightarrow> pystr" where
  "status self = (if is_finished self = Some True then py ''finished'' else py ''open'')"

section \<open>The session and BaseModel\<close>

text \<open>
  Modelled from the spec: the backing store behind \<open>db.session\<close> (\<open>db\<close> comes from the
  package's \<open>__init__\<close>, which is not among the sources). It provides add, delete, commit,
  rollback and queries over the three entity collections, with a uniqueness constraint
  on \<open>username\<close> and on \<open>email\<close> of \<open>User\<close>. The rows are the committed contents of the
  three tables; \<open>pending\<close> is the work of the open transaction.
\<close>

datatype entity = UserE User | ListE TodoList | TodoE Todolist

datatype change = Add entity | Delete entity

record session =
  user_rows :: "User list"
  list_rows :: "TodoList list"
  todo_rows :: "Todolist list"
  pending :: "change list"

definition empty_session :: session where
  "empty_session = \<lparr>user_rows = [], list_rows = [], todo_rows = [], pending = []\<rparr>"

fun entity_id :: "entity \<Rightarrow> nat option" where
  "entity_id (UserE u) = user_id u"
| "entity_id (ListE l) = list_id l"
| "entity_id (TodoE t) = todo_id t"

text \<open>
  A row that is inserted gets its primary key and the column defaults of the class
  (\<open>default=datetime.utcnow\<close>, \<open>default=False\<close>) where the object has no value.
\<close>

definition bool_or :: "bool option \<Rightarrow> bool \<Rightarrow> bool" where
  "bool_or x d = (case x of None \<Rightarrow> d | Some b \<Rightarrow> b)"

definition insert_User :: "datetime \<Rightarrow> nat \<Rightarrow> User \<Rightarrow> User" where
  "insert_User now k u =
     u\<lparr>user_id := Some k, member_since := Some (datetime_or (member_since u) now),
       last_seen := Some (datetime_or (last_seen u) now),
       is_admin := Some (bool_or (is_admin u) False)\<rparr>"

definition insert_TodoList :: "datetime \<Rightarrow> nat \<Rightarrow> TodoList \<Rightarrow> TodoList" where
  "insert_TodoList now k l =
     l\<lparr>list_id := Some k, list_created_at := Some (datetime_or (list_created_at l) now)\<rparr>"

definition insert_Todolist :: "datetime \<Rightarrow> nat \<Rightarrow> Todolist \<Rightarrow> Todolist" where
  "insert_Todolist now k t =
     t\<lparr>todo_id := Some k, created_at := Some (datetime_or (created_at t) now),
       is_finished := Some (bool_or (is_finished t) False)\<rparr>"

definition fresh_id :: "nat option list \<Rightarrow> nat" where
  "fresh_id ids = Suc (fold max (List.map_filter (\<lambda>i. i) ids) 0)"

text \<open>
  Adding an object without a primary key inserts a row; adding one whose key is in the
  table updates that row.
\<close>

definition upsert :: "('a \<Rightarrow> nat option) \<Rightarrow> (nat \<Rightarrow> 'a \<Rightarrow> 'a) \<Rightarrow> 'a \<Rightarrow> 'a list \<Rightarrow> 'a list" where
  "upsert key inserted x rows =
     (case key x of
        None \<Rightarrow> rows @ [inserted (fresh_id (map key rows)) x]
      | Some k \<Rightarrow>
          if Some k \<in> set (map key rows) then map (\<lambda>r. if key r = Some k then x else r) rows
          else rows @ [inserted k x])"

fun apply_change :: "datetime \<Rightarrow> change \<Rightarrow> session \<Rightarrow> session" where
  "apply_change now (Add (UserE u)) db =
     db\<lparr>user_rows := upsert user_id (insert_User now) u (user_rows db)\<rparr>"
| "apply_change now (Add (ListE l)) db =
     db\<lparr>list_rows := upsert list_id (insert_TodoList now) l (list_rows db)\<rparr>"
| "apply_change now (Add (TodoE t)) db =
     db\<lparr>todo_rows := upsert todo_id (insert_Todolist now) t (todo_rows db)\<rparr>"
| "apply_change now (Delete (UserE u)) db =
     db\<lparr>user_rows := filter (\<lambda>r. user_id r \<noteq> user_id u) (user_rows db)\<rparr>"
| "apply_change now (Delete (ListE l)) db =
     db\<lparr>list_rows := filter (\<lambda>r. list_id r \<noteq> list_id l) (list_rows db)\<rparr>"
| "apply_change now (Delete (TodoE t)) db =
     db\<lparr>todo_rows := filter (\<lambda>r. todo_id r \<noteq> todo_id t) (todo_rows db)\<rparr>"

text \<open>\<open>unique=True\<close> on \<open>username\<close> and on \<open>email\<close>; rows without a value never collide.\<close>

definition unique_ok :: "session \<Rightarrow> bool" where
  "unique_ok db \<longleftrightarrow>
     distinct (List.map_filter username (user_rows db)) \<and>
     distinct (List.map_filter email (user_rows db))"

fun flush :: "datetime \<Rightarrow> change list \<Rightarrow> session \<Rightarrow> session option" where
  "flush now [] db = Some db"
| "flush now (c # cs) db =
     (let db' = apply_change now c db in if unique_ok db' then flush now cs db' else None)"

definition session_add :: "entity \<Rightarrow> session \<Rightarrow> session" where
  "session_add e db = db\<lparr>pending := pending db @ [Add e]\<rparr>"

text \<open>Deleting an object that has no row is refused by the session.\<close>

definition session_delete :: "entity \<Rightarrow> session \<Rightarrow> error + session" where
  "session_delete e db =
     (if entity_id e = None then Inl InvalidRequestError
      else Inr (db\<lparr>pending := pending db @ [Delete e]\<rparr>))"

text \<open>
  A commit writes the pending work; a statement that breaks a uniqueness constraint
  raises \<open>IntegrityError\<close> and nothing is written.
\<close>

definition session_commit :: "datetime \<Rightarrow> session \<Rightarrow> error + session" where
  "session_commit now db =
     (case flush now (pending db) db of
        None \<Rightarrow> Inl IntegrityError
      | Some db' \<Rightarrow> Inr (db'\<lparr>pending := []\<rparr>))"

definition session_rollback :: "session \<Rightarrow> session" where
  "session_rollback db = db\<lparr>pending := []\<rparr>"

subsection \<open>BaseModel\<close>

text \<open>
  \<open>__commit\<close>: \<open>except IntegrityError\<close> catches that exception only; any other one goes on to
  the caller.
\<close>

definition BaseModel_commit :: "datetime \<Rightarrow> session \<Rightarrow> error + session" where
  "BaseModel_commit now db =
     (case session_commit now db of
        Inr db' \<Rightarrow> Inr db'
      | Inl e \<Rightarrow> if e = IntegrityError then Inr (session_rollback db) else Inl e)"

definition delete :: "datetime \<Rightarrow> session \<Rightarrow> entity \<Rightarrow> error + session" where
  "delete now db self =
     (case session_delete self db of
        Inl e \<Rightarrow> Inl e
      | Inr db1 \<Rightarrow> BaseModel_commit now db1)"

text \<open>\<open>save\<close> returns \<open>self\<close>, the object it was called on.\<close>

definition save :: "datetime \<Rightarrow> session \<Rightarrow> entity \<Rightarrow> error + session \<times> entity" where
  "save now db self =
     (case BaseModel_commit now (session_add self db) of
        Inl e \<Rightarrow> Inl e
      | Inr db' \<Rightarrow> Inr (db', self))"

subsection \<open>Operations that save\<close>

definition seen :: "datetime \<Rightarrow> session \<Rightarrow> User \<Rightarrow> error + session \<times> entity" where
  "seen now db self = save now db (UserE (self\<lparr>last_seen := Some now\<rparr>))"

definition promote_to_admin :: "datetime \<Rightarrow> session \<Rightarrow> User \<Rightarrow> error + session \<times> entity" where
  "promote_to_admin now db self = save now db (UserE (self\<lparr>is_admin := Some True\<rparr>))"

text \<open>
  \<open>finished\<close> and \<open>reopen\<close> assign two columns and save; the result is the session and the
  item as the two assignments leave it.
\<close>

definition finished :: "datetime \<Rightarrow> session \<Rightarrow> Todolist \<Rightarrow> error + session \<times> Todolist" where
  "finished now db self =
     (let self' = self\<lparr>is_finished := Some True, finished_at := Some now\<rparr> in
      case save now db (TodoE self') of
        Inl e \<Rightarrow> Inl e
      | Inr (db', _) \<Rightarrow> Inr (db', self'))"

definition reopen :: "datetime \<Rightarrow> session \<Rightarrow> Todolist \<Rightarrow> error + session \<times> Todolist" where
  "reopen now db self =
     (let self' = self\<lparr>is_finished := Some False, finished_at := None\<rparr> in
      case save now db (TodoE self') of
        Inl e \<Rightarrow> Inl e
      | Inr (db', _) \<Rightarrow> Inr (db', self'))"

subsection \<open>The counts of a list\<close>

text \<open>
  \<open>self.todos\<close> is the query for the items whose \<open>Todolist_id\<close> is the key of the list; a list
  that has no key yet has no row to refer to.
\<close>

definition todos :: "session \<Rightarrow> TodoList \<Rightarrow> Todolist list" where
  "todos db self =
     (case list_id self of
        None \<Rightarrow> []
      | Some k \<Rightarrow> filter (\<lambda>t. Todolist_id t = Some k) (todo_rows db))"

definition todo_count :: "session \<Rightarrow> TodoList \<Rightarrow> nat" where
  "todo_count db self = length (todos db self)"

definition finished_count :: "session \<Rightarrow> TodoList \<Rightarrow> nat" where
  "finished_count db self = length (filter (\<lambda>t. is_finished t = Some True) (todos db self))"

definition open_count :: "session \<Rightarrow> TodoList \<Rightarrow> nat" where
  "open_count db self = length (filter (\<lambda>t. is_finished t = Some False) (todos db self))"

section \<open>Notions of the specification\<close>

text \<open>A string without whitespace.\<close>

definition no_space :: "pystr \<Rightarrow> bool" where
  "no_space s \<longleftrightarrow> (\<forall>c \<in> set s. \<not> isspace c)"

text \<open>
  The consistency of an item: a finished item has a finish time, an open one has none.
  An item is open when \<open>is_finished\<close> is not true, as \<open>status\<close> reads it.
\<close>

definition consistent :: "Todolist \<Rightarrow> bool" where
  "consistent t \<longleftrightarrow>
     (is_finished t = Some True \<longrightarrow> finished_at t \<noteq> None) \<and>
     (is_finished t \<noteq> Some True \<longrightarrow> finished_at t = None)"

text \<open>
  The states an item goes through: the constructor makes one, \<open>finished\<close> and \<open>reopen\<close>
  change it, and the insertion of its row gives it a key and the column defaults.
\<close>

inductive reachable :: "Todolist \<Rightarrow> bool" where
  r_init: "reachable (Todolist_init now d k c ca)"
| r_finished: "reachable t \<Longrightarrow> finished now db t = Inr (db', t') \<Longrightarrow> reachable t'"
| r_reopen: "reachable t \<Longrightarrow> reopen now db t = Inr (db', t') \<Longrightarrow> reachable t'"
| r_inserted: "reachable t \<Longrightarrow> reachable (insert_Todolist now k t)"

text \<open>The items a list owns: the rows of the item table that refer to the list's key.\<close>

definition owned_items :: "session \<Rightarrow> TodoList \<Rightarrow> Todolist list" where
  "owned_items db l =
     filter (\<lambda>t. list_id l \<noteq> None \<and> Todolist_id t = list_id l) (todo_rows db)"

text \<open>
  The item table is sound when every row is consistent and has a value for \<open>is_finished\<close>.
  An item may be written when it is consistent and, once it has a key, has a value for
  \<open>is_finished\<close>.
\<close>

definition item_ok :: "Todolist \<Rightarrow> bool" where
  "item_ok t \<longleftrightarrow> consistent t \<and> (todo_id t \<noteq> None \<longrightarrow> is_finished t \<noteq> None)"

definition rows_ok :: "session \<Rightarrow> bool" where
  "rows_ok db \<longleftrightarrow> (\<forall>t \<in> set (todo_rows db). consistent t \<and> is_finished t \<noteq> None)"

fun change_ok :: "change \<Rightarrow> bool" where
  "change_ok (Add (TodoE t)) = item_ok t"
| "change_ok _ = True"

text \<open>
  The sessions that the model layer produces: from the empty store, by saving a user, a
  list or an item in one of its reachable states, and by deleting any of them.
\<close>

inductive reachable_session :: "session \<Rightarrow> bool" where
  s_empty: "reachable_session empty_session"
| s_save_user:
    "reachable_session db \<Longrightarrow> save now db (UserE u) = Inr (db', e) \<Longrightarrow> reachable_session db'"
| s_save_list:
    "reachable_session db \<Longrightarrow> save now db (ListE l) = Inr (db', e) \<Longrightarrow> reachable_session db'"
| s_save_item:
    "reachable_session db \<Longrightarrow> reachable t \<Longrightarrow> save now db (TodoE t) = Inr (db', e) \<Longrightarrow>
     reachable_session db'"
| s_delete:
    "reachable_session db \<Longrightarrow> delete now db e = Inr db' \<Longrightarrow> reachable_session db'"

section \<open>Evaluation\<close>

lemma py_simps [simp]: "py [] = []" "py (c # cs) = of_char c # py cs"
  by (simp_all add: py_def)

lemmas store_eval =
  session_commit_def session_add_def session_delete_def session_rollback_def upsert_def
  fresh_id_def insert_User_def insert_TodoList_def insert_Todolist_def unique_ok_def
  datetime_or_def bool_or_def new_User_def empty_session_def

section \<open>User: the setters\<close>

text \<open>
  A \<open>+\<close> item matches a non-empty run of characters of its class, of any length that lets
  the rest of the pattern match.
\<close>

lemma match_at_Plus:
  "match_at (Plus a # r) pos s \<longleftrightarrow>
     (\<exists>n. 0 < n \<and> n \<le> length s \<and> (\<forall>c \<in> set (take n s). atom_ok a c) \<and>
          match_at r (pos + n) (drop n s))"
proof (induction s arbitrary: pos)
  case Nil
  then show ?case by simp
next
  case (Cons c cs)
  show ?case
  proof
    assume "match_at (Plus a # r) pos (c # cs)"
    then have ok: "atom_ok a c"
      and alt: "match_at (Plus a # r) (Suc pos) cs \<or> match_at r (Suc pos) cs"
      by simp_all
    from alt show "\<exists>n. 0 < n \<and> n \<le> length (c # cs) \<and> (\<forall>x \<in> set (take n (c # cs)). atom_ok a x) \<and>
          match_at r (pos + n) (drop n (c # cs))"
    proof
      assume "match_at (Plus a # r) (Suc pos) cs"
      then obtain n where n: "0 < n" "n \<le> length cs" "\<forall>x \<in> set (take n cs). atom_ok a x"
        "match_at r (Suc pos + n) (drop n cs)"
        using Cons.IH by blast
      with ok show ?thesis
        by (intro exI [of _ "Suc n"]) simp
    next
      assume "match_at r (Suc pos) cs"
      with ok show ?thesis
        by (intro exI [of _ "Suc 0"]) simp
    qed
  next
    assume "\<exists>n. 0 < n \<and> n \<le> length (c # cs) \<and> (\<forall>x \<in> set (take n (c # cs)). atom_ok a x) \<and>
          match_at r (pos + n) (drop n (c # cs))"
    then obtain n where n: "0 < n" "n \<le> length (c # cs)" "\<forall>x \<in> set (take n (c # cs)). atom_ok a x"
        "match_at r (pos + n) (drop n (c # cs))" by blast
    then obtain m where m: "n = Suc m" by (cases n) auto
    show "match_at (Plus a # r) pos (c # cs)"
    proof (cases m)
      case 0
      with n m show ?thesis by simp
    next
      case (Suc k)
      with n m have "0 < m \<and> m \<le> length cs \<and> (\<forall>x \<in> set (take m cs). atom_ok a x) \<and>
          match_at r (Suc pos + m) (drop m cs)" by simp
      then have "match_at (Plus a # r) (Suc pos) cs" using Cons.IH by blast
      with n m show ?thesis by simp
    qed
  qed
qed

lemma match_at_Plus_append:
  "match_at (Plus a # r) pos s \<longleftrightarrow>
     (\<exists>u v. s = u @ v \<and> u \<noteq> [] \<and> (\<forall>c \<in> set u. atom_ok a c) \<and> match_at r (pos + length u) v)"
proof
  assume "match_at (Plus a # r) pos s"
  then obtain n where n: "0 < n" "n \<le> length s" "\<forall>c \<in> set (take n s). atom_ok a c"
    "match_at r (pos + n) (drop n s)"
    unfolding match_at_Plus by blast
  then have "s = take n s @ drop n s \<and> take n s \<noteq> [] \<and> (\<forall>c \<in> set (take n s). atom_ok a c) \<and>
      match_at r (pos + length (take n s)) (drop n s)"
    by (auto simp: min_def)
  then show "\<exists>u v. s = u @ v \<and> u \<noteq> [] \<and> (\<forall>c \<in> set u. atom_ok a c) \<and> match_at r (pos + length u) v"
    by blast
next
  assume "\<exists>u v. s = u @ v \<and> u \<noteq> [] \<and> (\<forall>c \<in> set u. atom_ok a c) \<and> match_at r (pos + length u) v"
  then obtain u v where "s = u @ v" "u \<noteq> []" "\<forall>c \<in> set u. atom_ok a c"
    "match_at r (pos + length u) v" by blast
  then have "0 < length u \<and> length u \<le> length s \<and> (\<forall>c \<in> set (take (length u) s). atom_ok a c) \<and>
      match_at r (pos + length u) (drop (length u) s)"
    by simp
  then show "match_at (Plus a # r) pos s"
    unfolding match_at_Plus by blast
qed

lemma match_at_Single:
  "match_at (Single a # r) pos s \<longleftrightarrow> (\<exists>c v. s = c # v \<and> atom_ok a c \<and> match_at r (Suc pos) v)"
  by (cases s) simp_all

lemma match_at_Eol: "match_at [Eol] pos s \<longleftrightarrow> s = [] \<or> s = [10]"
  by simp

lemma USERNAME_REGEX_iff:
  "re_match USERNAME_REGEX s \<longleftrightarrow>
     (s \<noteq> [] \<and> no_space s) \<or> (\<exists>t. t \<noteq> [] \<and> no_space t \<and> s = t @ [10])"
  unfolding re_match_def USERNAME_REGEX_def
  by (auto simp: match_at_Plus_append no_space_def)

lemma EMAIL_REGEX_iff:
  "re_match EMAIL_REGEX s \<longleftrightarrow>
     (\<exists>a b c. a \<noteq> [] \<and> b \<noteq> [] \<and> c \<noteq> [] \<and> no_space a \<and> no_space b \<and> no_space c \<and>
        (s = a @ 64 # b @ 46 # c \<or> s = a @ 64 # b @ 46 # c @ [10]))"
  unfolding re_match_def EMAIL_REGEX_def
  apply (simp add: match_at_Plus_append match_at_Single no_space_def del: match_at.simps(5,7))
  apply (rule iffI)
   apply (elim exE conjE disjE)
    apply (metis append_Nil2)
   apply blast
  apply (elim exE conjE disjE)
   apply (metis append_Nil2)
  apply blast
  done


text \<open>
  What the two setters accept: a string of 1 to 64 characters that the pattern matches,
  which for the handle is a string free of whitespace, or such a string followed by one
  newline.
\<close>

lemma username_setter_accepts:
  "username_setter u h =
     (if h \<noteq> [] \<and> length h \<le> 64 \<and>
         (no_space h \<or> (\<exists>t. t \<noteq> [] \<and> no_space t \<and> h = t @ [10]))
      then Inr (u\<lparr>username := Some h\<rparr>) else Inl ValueError)"
  by (auto simp: username_setter_def check_length_def USERNAME_REGEX_iff)

lemma email_setter_accepts:
  "email_setter u v =
     (if v \<noteq> [] \<and> length v \<le> 64 \<and>
         (\<exists>a b c. a \<noteq> [] \<and> b \<noteq> [] \<and> c \<noteq> [] \<and> no_space a \<and> no_space b \<and> no_space c \<and>
            (v = a @ 64 # b @ 46 # c \<or> v = a @ 64 # b @ 46 # c @ [10]))
      then Inr (u\<lparr>email := Some v\<rparr>) else Inl ValueError)"
  unfolding email_setter_def check_length_def EMAIL_REGEX_iff by simp

text \<open>
  C2. The claim: a handle is accepted exactly when it is non-empty, at most 64 characters
  long and free of whitespace. The setter accepts \<open>abc\<close> followed by a newline: \<open>$\<close> of
  \<open>USERNAME_REGEX\<close> matches before a final newline, and a newline is whitespace.
\<close>

theorem username_setter_trailing_newline:
  "username_setter u (py ''abc\<newline>'') = Inr (u\<lparr>username := Some (py ''abc\<newline>'')\<rparr>)
   \<and> \<not> no_space (py ''abc\<newline>'')"
  by (simp add: username_setter_def check_length_def re_match_def USERNAME_REGEX_def
      isspace_def no_space_def)

theorem username_setter_trailing_newline_witness:
  "username_setter new_User (py ''abc\<newline>'') =
     Inr (new_User\<lparr>username := Some (py ''abc\<newline>'')\<rparr>)
   \<and> \<not> no_space (py ''abc\<newline>'')"
  using username_setter_trailing_newline [of new_User]
  by simp

text \<open>
  C7. The claim: an address is rejected exactly when it is empty, longer than 64
  characters, or not of the shape non-space characters, \<open>@\<close>, non-space characters, a dot,
  non-space characters. The setter accepts \<open>a@b.c\<close> followed by a newline, for the reason
  given at C2.
\<close>

theorem email_setter_trailing_newline:
  "email_setter u (py ''a@b.c\<newline>'') = Inr (u\<lparr>email := Some (py ''a@b.c\<newline>'')\<rparr>)
   \<and> \<not> no_space (py ''a@b.c\<newline>'')"
  by (simp add: email_setter_def check_length_def re_match_def EMAIL_REGEX_def
      isspace_def no_space_def)

theorem email_setter_trailing_newline_witness:
  "email_setter new_User (py ''a@b.c\<newline>'') =
     Inr (new_User\<lparr>email := Some (py ''a@b.c\<newline>'')\<rparr>)
   \<and> \<not> no_space (py ''a@b.c\<newline>'')"
  using email_setter_trailing_newline [of new_User]
  by simp

section \<open>User: the password\<close>

text \<open>
  C6. Reading \<open>password\<close> raises \<open>AttributeError\<close> on every account, whatever was
  written to it before.
\<close>

theorem password_not_readable: "password u = Inl AttributeError"
  by (simp add: password_def)

text \<open>
  C10. On an account whose \<open>password_hash\<close> has no value, \<open>verify_password\<close> raises for
  every plaintext; it does not answer \<open>False\<close>.
\<close>

theorem verify_password_without_hash:
  "password_hash u = None \<Longrightarrow> verify_password chk u p = Inl AttributeError"
  by (simp add: verify_password_def check_password_hash_def)

theorem verify_password_without_hash_witness:
  "password_hash new_User = None \<and>
   verify_password (\<lambda>h p. h = p) new_User (py ''secret'') = Inl AttributeError"
  using verify_password_without_hash [of new_User "\<lambda>h p. h = p" "py ''secret''"]
  by (simp add: new_User_def)

text \<open>
  C5. For a non-empty plaintext \<open>pw\<close>, the setter stores a digest, after which
  \<open>verify_password\<close> answers \<open>True\<close> on \<open>pw\<close> and \<open>False\<close> on \<open>pw\<close> followed by \<open>x\<close>; the empty
  plaintext is refused with \<open>ValueError\<close>. The hashing functions are the library's: the
  statement holds for every pair \<open>gen\<close>, \<open>chk\<close> such that the digest of \<open>pw\<close> is at most 256
  characters long and \<open>chk\<close> accepts on it the plaintext \<open>pw\<close> and no other.
\<close>

theorem password_roundtrip:
  assumes "pw \<noteq> []"
    and "length (gen salt pw) \<le> 256"
    and "\<forall>p. chk (gen salt pw) p \<longleftrightarrow> p = pw"
  shows "(\<exists>u'. password_setter gen salt u pw = Inr u' \<and>
            verify_password chk u' pw = Inr True \<and>
            verify_password chk u' (pw @ py ''x'') = Inr False) \<and>
         password_setter gen salt u [] = Inl ValueError"
  using assms
  by (simp add: password_setter_def verify_password_def check_password_hash_def Let_def)

theorem password_roundtrip_witness:
  "py ''pw'' \<noteq> [] \<and> length (py ''ab$'' @ py ''pw'') \<le> 256 \<and>
   (\<forall>p. (py ''ab$'' @ py ''pw'' = py ''ab$'' @ p) \<longleftrightarrow> p = py ''pw'') \<and>
   (\<exists>u'. password_setter (\<lambda>salt pw. salt @ pw) (py ''ab$'') new_User (py ''pw'') = Inr u' \<and>
      verify_password (\<lambda>h p. h = py ''ab$'' @ p) u' (py ''pw'') = Inr True \<and>
      verify_password (\<lambda>h p. h = py ''ab$'' @ p) u' (py ''pw'' @ py ''x'') = Inr False) \<and>
   password_setter (\<lambda>salt pw. salt @ pw) (py ''ab$'') new_User [] = Inl ValueError"
  using password_roundtrip [of "py ''pw''" "\<lambda>salt pw. salt @ pw" "py ''ab$''"
      "\<lambda>h p. h = py ''ab$'' @ p" new_User]
  by auto

section \<open>TodoList: the title\<close>

text \<open>
  C4. A list constructed without a title has the title \<open>untitled\<close>; constructing one with
  a title of 129 characters raises \<open>ValueError\<close>.
\<close>

theorem TodoList_init_title:
  "(\<exists>l. TodoList_init now None creator0 created_at0 = Inr l \<and> title l = Some (py ''untitled''))
   \<and> (length t = 129 \<longrightarrow> TodoList_init now (Some t) creator0 created_at0 = Inl ValueError)"
  by (auto simp: TodoList_init_def title_setter_def check_length_def str_or_def)

theorem TodoList_init_title_witness:
  "length (replicate 129 (97 :: codepoint)) = 129 \<and>
   TodoList_init 0 (Some (replicate 129 97)) None None = Inl ValueError"
  using TodoList_init_title [of 0 None None "replicate 129 97"]
  by simp

text \<open>
  C9. A list constructed with the empty string as its title gets the title \<open>untitled\<close>
  and no error, although the setter refuses the empty string; so every list that the
  constructor returns has a non-empty title.
\<close>

theorem TodoList_init_empty_title:
  "(\<exists>l. TodoList_init now (Some []) creator0 created_at0 = Inr l \<and>
        title l = Some (py ''untitled''))
   \<and> title_setter l0 [] = Inl ValueError
   \<and> (TodoList_init now title0 creator0 created_at0 = Inr l' \<longrightarrow>
        (\<exists>t. title l' = Some t \<and> t \<noteq> []))"
  by (auto simp: TodoList_init_def title_setter_def check_length_def str_or_def
      split: if_splits option.splits)

theorem TodoList_init_empty_title_witness:
  "TodoList_init 5 (Some []) None None =
     Inr \<lparr>list_id = None, title = Some (py ''untitled''), list_created_at = Some 5,
          list_creator = None\<rparr>
   \<and> (\<exists>t. title \<lparr>list_id = None, title = Some (py ''untitled''), list_created_at = Some 5,
          list_creator = None\<rparr> = Some t \<and> t \<noteq> [])"
  using TodoList_init_empty_title [of 5 None None _ "Some []"
      "\<lparr>list_id = None, title = Some (py ''untitled''), list_created_at = Some 5,
          list_creator = None\<rparr>"]
  by (simp add: TodoList_init_def title_setter_def check_length_def str_or_def datetime_or_def)

section \<open>BaseModel: save and delete\<close>

lemma session_commit_error: "session_commit now db = Inl e \<Longrightarrow> e = IntegrityError"
  by (auto simp: session_commit_def split: option.splits)

lemma BaseModel_commit_cases:
  "BaseModel_commit now db =
     (case session_commit now db of Inr db' \<Rightarrow> Inr db' | Inl e \<Rightarrow> Inr (session_rollback db))"
  by (auto simp: BaseModel_commit_def split: sum.splits dest: session_commit_error)

lemma save_returns_self: "\<exists>db'. save now db e = Inr (db', e)"
  by (auto simp: save_def BaseModel_commit_cases split: sum.splits)

lemma finished_result:
  "\<exists>db'. finished now db t = Inr (db', t\<lparr>is_finished := Some True, finished_at := Some now\<rparr>)"
proof -
  obtain db' where "save now db (TodoE (t\<lparr>is_finished := Some True, finished_at := Some now\<rparr>))
      = Inr (db', TodoE (t\<lparr>is_finished := Some True, finished_at := Some now\<rparr>))"
    using save_returns_self by blast
  then show ?thesis by (simp add: finished_def)
qed

lemma reopen_result:
  "\<exists>db'. reopen now db t = Inr (db', t\<lparr>is_finished := Some False, finished_at := None\<rparr>)"
proof -
  obtain db' where "save now db (TodoE (t\<lparr>is_finished := Some False, finished_at := None\<rparr>))
      = Inr (db', TodoE (t\<lparr>is_finished := Some False, finished_at := None\<rparr>))"
    using save_returns_self by blast
  then show ?thesis by (simp add: reopen_def)
qed

text \<open>
  C1. Neither \<open>save\<close> nor \<open>delete\<close> raises \<open>IntegrityError\<close>, for a user, a list or an item.
  When the commit raises it, the session is rolled back and the call returns as it does
  after a commit that succeeded: \<open>save\<close> returns the object it was called on and \<open>delete\<close>
  returns without a value, so the result of the call does not tell the two apart.
\<close>

theorem save_delete_swallow:
  "save now db e \<noteq> Inl IntegrityError \<and> delete now db e \<noteq> Inl IntegrityError \<and>
   (session_commit now (session_add e db) = Inl IntegrityError \<longrightarrow>
      save now db e = Inr (session_rollback (session_add e db), e)) \<and>
   (session_commit now (session_add e db) = Inr db' \<longrightarrow> save now db e = Inr (db', e)) \<and>
   (session_delete e db = Inr db1 \<and> session_commit now db1 = Inl IntegrityError \<longrightarrow>
      delete now db e = Inr (session_rollback db1)) \<and>
   (session_delete e db = Inr db1 \<and> session_commit now db1 = Inr db2 \<longrightarrow>
      delete now db e = Inr db2)"
  by (auto simp: save_def delete_def BaseModel_commit_def session_delete_def split: sum.splits if_splits)

theorem save_delete_swallow_witness:
  "session_commit 2 (session_add (UserE (new_User\<lparr>username := Some (py ''bob'')\<rparr>))
      \<lparr>user_rows = [insert_User 1 1 (new_User\<lparr>username := Some (py ''bob'')\<rparr>)],
       list_rows = [], todo_rows = [], pending = []\<rparr>) = Inl IntegrityError
   \<and> save 2 \<lparr>user_rows = [insert_User 1 1 (new_User\<lparr>username := Some (py ''bob'')\<rparr>)],
          list_rows = [], todo_rows = [], pending = []\<rparr>
        (UserE (new_User\<lparr>username := Some (py ''bob'')\<rparr>))
     = Inr (\<lparr>user_rows = [insert_User 1 1 (new_User\<lparr>username := Some (py ''bob'')\<rparr>)],
          list_rows = [], todo_rows = [], pending = []\<rparr>,
          UserE (new_User\<lparr>username := Some (py ''bob'')\<rparr>))
   \<and> save 1 empty_session (UserE (new_User\<lparr>username := Some (py ''bob'')\<rparr>))
     = Inr (\<lparr>user_rows = [insert_User 1 1 (new_User\<lparr>username := Some (py ''bob'')\<rparr>)],
          list_rows = [], todo_rows = [], pending = []\<rparr>,
          UserE (new_User\<lparr>username := Some (py ''bob'')\<rparr>))
   \<and> session_commit 3
        \<lparr>user_rows = [insert_User 1 1 (new_User\<lparr>username := Some (py ''bob'')\<rparr>)],
          list_rows = [], todo_rows = [],
          pending = [Add (UserE (new_User\<lparr>username := Some (py ''bob'')\<rparr>)),
                     Delete (TodoE (Todolist_init 1 (py ''milk'') 1 None None\<lparr>todo_id := Some 7\<rparr>))]\<rparr>
      = Inl IntegrityError
   \<and> delete 3
        \<lparr>user_rows = [insert_User 1 1 (new_User\<lparr>username := Some (py ''bob'')\<rparr>)],
          list_rows = [], todo_rows = [],
          pending = [Add (UserE (new_User\<lparr>username := Some (py ''bob'')\<rparr>))]\<rparr>
        (TodoE (Todolist_init 1 (py ''milk'') 1 None None\<lparr>todo_id := Some 7\<rparr>))
      = Inr \<lparr>user_rows = [insert_User 1 1 (new_User\<lparr>username := Some (py ''bob'')\<rparr>)],
          list_rows = [], todo_rows = [], pending = []\<rparr>
   \<and> delete 4
        \<lparr>user_rows = [insert_User 1 1 (new_User\<lparr>username := Some (py ''bob'')\<rparr>)],
          list_rows = [], todo_rows = [], pending = []\<rparr>
        (UserE (insert_User 1 1 (new_User\<lparr>username := Some (py ''bob'')\<rparr>)))
      = Inr empty_session"
  using
    save_delete_swallow [of 2
      "\<lparr>user_rows = [insert_User 1 1 (new_User\<lparr>username := Some (py ''bob'')\<rparr>)],
       list_rows = [], todo_rows = [], pending = []\<rparr>"
      "UserE (new_User\<lparr>username := Some (py ''bob'')\<rparr>)"]
    save_delete_swallow [of 1 empty_session "UserE (new_User\<lparr>username := Some (py ''bob'')\<rparr>)"
      "\<lparr>user_rows = [insert_User 1 1 (new_User\<lparr>username := Some (py ''bob'')\<rparr>)],
       list_rows = [], todo_rows = [], pending = []\<rparr>"]
    save_delete_swallow [of 3
        "\<lparr>user_rows = [insert_User 1 1 (new_User\<lparr>username := Some (py ''bob'')\<rparr>)],
          list_rows = [], todo_rows = [],
          pending = [Add (UserE (new_User\<lparr>username := Some (py ''bob'')\<rparr>))]\<rparr>"
        "TodoE (Todolist_init 1 (py ''milk'') 1 None None\<lparr>todo_id := Some 7\<rparr>)" _
        "\<lparr>user_rows = [insert_User 1 1 (new_User\<lparr>username := Some (py ''bob'')\<rparr>)],
          list_rows = [], todo_rows = [],
          pending = [Add (UserE (new_User\<lparr>username := Some (py ''bob'')\<rparr>)),
                     Delete (TodoE (Todolist_init 1 (py ''milk'') 1 None None\<lparr>todo_id := Some 7\<rparr>))]\<rparr>"]
    save_delete_swallow [of 4
        "\<lparr>user_rows = [insert_User 1 1 (new_User\<lparr>username := Some (py ''bob'')\<rparr>)],
          list_rows = [], todo_rows = [], pending = []\<rparr>"
        "UserE (insert_User 1 1 (new_User\<lparr>username := Some (py ''bob'')\<rparr>))" _
        "\<lparr>user_rows = [insert_User 1 1 (new_User\<lparr>username := Some (py ''bob'')\<rparr>)],
          list_rows = [], todo_rows = [],
          pending = [Delete (UserE (insert_User 1 1 (new_User\<lparr>username := Some (py ''bob'')\<rparr>)))]\<rparr>"
        empty_session]
  by (simp add: store_eval Todolist_init_def)


section \<open>Todolist: finished and reopen\<close>

lemma reachable_item_ok: "reachable t \<Longrightarrow> item_ok t"
proof (induction rule: reachable.induct)
  case (r_init now d k c ca)
  show ?case by (simp add: item_ok_def consistent_def Todolist_init_def)
next
  case (r_finished t now db db' t')
  moreover obtain db2 where "finished now db t = Inr (db2, t\<lparr>is_finished := Some True, finished_at := Some now\<rparr>)"
    using finished_result by blast
  ultimately show ?case by (auto simp: item_ok_def consistent_def)
next
  case (r_reopen t now db db' t')
  moreover obtain db2 where "reopen now db t = Inr (db2, t\<lparr>is_finished := Some False, finished_at := None\<rparr>)"
    using reopen_result by blast
  ultimately show ?case by (auto simp: item_ok_def consistent_def)
next
  case (r_inserted t now k)
  then show ?case
    by (cases "is_finished t") (auto simp: item_ok_def consistent_def insert_Todolist_def bool_or_def)
qed

lemma reachable_consistent: "reachable t \<Longrightarrow> consistent t"
  using reachable_item_ok [of t] by (simp add: item_ok_def)

text \<open>
  C3. Every reachable state of an item is consistent: finished items have a finish time,
  open ones have none. A new item is open and has no finish time; \<open>finished\<close> sets
  \<open>is_finished\<close> and stamps \<open>finished_at\<close>, \<open>reopen\<close> clears both, and both always return.
\<close>

theorem item_consistent:
  "(reachable t \<longrightarrow> consistent t) \<and>
   status (Todolist_init now d k c ca) = py ''open'' \<and>
   finished_at (Todolist_init now d k c ca) = None \<and>
   (\<exists>db'. finished now' db t0 = Inr (db', t0\<lparr>is_finished := Some True, finished_at := Some now'\<rparr>)) \<and>
   (\<exists>db'. reopen now' db t0 = Inr (db', t0\<lparr>is_finished := Some False, finished_at := None\<rparr>))"
  using reachable_consistent [of t] finished_result [of now' db t0] reopen_result [of now' db t0]
  by (simp add: status_def Todolist_init_def)

theorem item_consistent_witness:
  "reachable ((Todolist_init 1 (py ''milk'') 1 None None)\<lparr>is_finished := Some True, finished_at := Some 9\<rparr>)
   \<and> consistent ((Todolist_init 1 (py ''milk'') 1 None None)\<lparr>is_finished := Some True, finished_at := Some 9\<rparr>)
   \<and> is_finished ((Todolist_init 1 (py ''milk'') 1 None None)\<lparr>is_finished := Some True, finished_at := Some 9\<rparr>) = Some True
   \<and> finished_at ((Todolist_init 1 (py ''milk'') 1 None None)\<lparr>is_finished := Some True, finished_at := Some 9\<rparr>) = Some 9"
proof -
  obtain db' where "finished 9 empty_session (Todolist_init 1 (py ''milk'') 1 None None)
      = Inr (db', (Todolist_init 1 (py ''milk'') 1 None None)\<lparr>is_finished := Some True, finished_at := Some 9\<rparr>)"
    using finished_result by blast
  then have r: "reachable ((Todolist_init 1 (py ''milk'') 1 None None)\<lparr>is_finished := Some True, finished_at := Some 9\<rparr>)"
    using r_init r_finished by blast
  with item_consistent [of "(Todolist_init 1 (py ''milk'') 1 None None)\<lparr>is_finished := Some True, finished_at := Some 9\<rparr>"]
  show ?thesis by simp
qed

section \<open>The item table\<close>

lemma insert_Todolist_ok:
  "consistent t \<Longrightarrow> consistent (insert_Todolist now k t) \<and> is_finished (insert_Todolist now k t) \<noteq> None"
  by (cases "is_finished t") (auto simp: consistent_def insert_Todolist_def bool_or_def)

lemma apply_change_rows_ok:
  assumes "rows_ok db" and "change_ok c"
  shows "rows_ok (apply_change now c db)"
proof (cases c)
  case (Add e)
  show ?thesis
  proof (cases e)
    case (TodoE t)
    with Add assms have ok: "item_ok t" by simp
    then have c: "consistent t" by (simp add: item_ok_def)
    show ?thesis
    proof (cases "todo_id t")
      case None
      with Add TodoE assms(1) insert_Todolist_ok [OF c] show ?thesis
        by (auto simp: rows_ok_def upsert_def)
    next
      case (Some k)
      with ok have "is_finished t \<noteq> None" by (simp add: item_ok_def)
      with Some Add TodoE assms(1) c insert_Todolist_ok [OF c] show ?thesis
        by (auto simp: rows_ok_def upsert_def)
    qed
  qed (use Add assms in \<open>auto simp: rows_ok_def\<close>)
next
  case (Delete e)
  with assms show ?thesis by (cases e) (auto simp: rows_ok_def)
qed

lemma apply_change_pending: "pending (apply_change now c db) = pending db"
  by (cases c; cases "case c of Add e \<Rightarrow> e | Delete e \<Rightarrow> e") auto

lemma flush_rows_ok:
  "rows_ok db \<Longrightarrow> \<forall>c \<in> set cs. change_ok c \<Longrightarrow> flush now cs db = Some db' \<Longrightarrow> rows_ok db'"
proof (induction cs arbitrary: db)
  case Nil
  then show ?case by simp
next
  case (Cons c cs)
  from Cons.prems have ok: "rows_ok (apply_change now c db)"
    by (simp add: apply_change_rows_ok)
  from Cons.prems have "flush now cs (apply_change now c db) = Some db'"
    by (simp add: Let_def split: if_splits)
  with ok Cons.prems(2) Cons.IH show ?case by simp
qed

lemma BaseModel_commit_rows_ok:
  assumes "rows_ok db" and "\<forall>c \<in> set (pending db). change_ok c"
    and "BaseModel_commit now db = Inr db'"
  shows "rows_ok db' \<and> pending db' = []"
proof (cases "flush now (pending db) db")
  case None
  with assms show ?thesis
    by (auto simp: BaseModel_commit_def session_commit_def session_rollback_def rows_ok_def)
next
  case (Some d)
  with assms(1,2) have "rows_ok d" using flush_rows_ok by blast
  with Some assms(3) show ?thesis
    by (auto simp: BaseModel_commit_def session_commit_def rows_ok_def)
qed

lemma save_rows_ok:
  assumes "rows_ok db" "pending db = []" "change_ok (Add e)" "save now db e = Inr (db', e')"
  shows "rows_ok db' \<and> pending db' = []"
proof -
  from assms(4) have "BaseModel_commit now (session_add e db) = Inr db'"
    by (auto simp: save_def split: sum.splits)
  moreover have "rows_ok (session_add e db)" using assms(1) by (simp add: rows_ok_def session_add_def)
  moreover have "\<forall>c \<in> set (pending (session_add e db)). change_ok c"
    using assms(2,3) by (simp add: session_add_def)
  ultimately show ?thesis using BaseModel_commit_rows_ok by blast
qed

lemma delete_rows_ok:
  assumes "rows_ok db" "pending db = []" "delete now db e = Inr db'"
  shows "rows_ok db' \<and> pending db' = []"
proof -
  from assms(3) obtain db1 where d: "session_delete e db = Inr db1" "BaseModel_commit now db1 = Inr db'"
    by (auto simp: delete_def split: sum.splits)
  from d(1) have db1: "db1 = db\<lparr>pending := pending db @ [Delete e]\<rparr>"
    by (auto simp: session_delete_def split: if_splits)
  have "rows_ok db1" using assms(1) by (simp add: db1 rows_ok_def)
  moreover have "\<forall>c \<in> set (pending db1). change_ok c" using assms(2) by (simp add: db1)
  ultimately show ?thesis using d(2) BaseModel_commit_rows_ok by blast
qed

lemma reachable_session_rows_ok: "reachable_session db \<Longrightarrow> rows_ok db \<and> pending db = []"
proof (induction rule: reachable_session.induct)
  case s_empty
  show ?case by (simp add: rows_ok_def empty_session_def)
next
  case (s_save_user db now u db' e)
  then show ?case using save_rows_ok [of db "UserE u" now db' e] by simp
next
  case (s_save_list db now l db' e)
  then show ?case using save_rows_ok [of db "ListE l" now db' e] by simp
next
  case (s_save_item db t now db' e)
  then show ?case using save_rows_ok [of db "TodoE t" now db' e] reachable_item_ok [of t] by simp
next
  case (s_delete db now e db')
  then show ?case using delete_rows_ok by blast
qed


section \<open>TodoList: the counts\<close>

lemma length_filter_split:
  "length xs = length (filter P xs) + length (filter (\<lambda>x. \<not> P x) xs)"
  by (induction xs) auto

lemma todos_owned_items: "todos db l = owned_items db l"
  by (cases "list_id l") (simp_all add: todos_def owned_items_def)

lemma open_filter:
  assumes "\<forall>t \<in> set xs. is_finished t \<noteq> None"
  shows "filter (\<lambda>t. is_finished t = Some False) xs = filter (\<lambda>t. \<not> is_finished t = Some True) xs"
  using assms by (intro filter_cong) auto

text \<open>
  C8. The three counts are computed from the item rows of the session they are given:
  \<open>todo_count\<close> is the number of items the list owns, \<open>finished_count\<close> the number of those
  with \<open>is_finished\<close> true and \<open>open_count\<close> the number with \<open>is_finished\<close> false. In every
  session that the model layer produces, and in every session none of whose owned items
  lacks a value for \<open>is_finished\<close>, the total is the sum of the other two; with three
  owned items of which one is finished the counts are 3, 1 and 2.
\<close>

theorem TodoList_counts:
  "todo_count db l = length (owned_items db l) \<and>
   finished_count db l = length (filter (\<lambda>t. is_finished t = Some True) (owned_items db l)) \<and>
   open_count db l = length (filter (\<lambda>t. is_finished t = Some False) (owned_items db l)) \<and>
   (reachable_session db \<longrightarrow> todo_count db l = open_count db l + finished_count db l) \<and>
   ((\<forall>t \<in> set (owned_items db l). is_finished t \<noteq> None) \<longrightarrow>
      todo_count db l = open_count db l + finished_count db l) \<and>
   ((\<forall>t \<in> set (owned_items db l). is_finished t \<noteq> None) \<and>
    length (owned_items db l) = 3 \<and>
    length (filter (\<lambda>t. is_finished t = Some True) (owned_items db l)) = 1 \<longrightarrow>
      todo_count db l = 3 \<and> finished_count db l = 1 \<and> open_count db l = 2)"
proof -
  have sum: "todo_count db l = open_count db l + finished_count db l"
    if "\<forall>t \<in> set (owned_items db l). is_finished t \<noteq> None"
    using length_filter_split [of "owned_items db l" "\<lambda>t. is_finished t = Some True"]
      open_filter [OF that]
    by (simp add: todo_count_def finished_count_def open_count_def todos_owned_items)
  have "\<forall>t \<in> set (owned_items db l). is_finished t \<noteq> None" if "reachable_session db"
    using reachable_session_rows_ok [OF that] by (auto simp: rows_ok_def owned_items_def)
  with sum have "reachable_session db \<longrightarrow> todo_count db l = open_count db l + finished_count db l"
    by blast
  with sum show ?thesis
    by (auto simp: todo_count_def finished_count_def open_count_def todos_owned_items)
qed

theorem TodoList_counts_witness:
  "reachable_session
     \<lparr>user_rows = [],
      list_rows = [\<lparr>list_id = Some 1, title = Some (py ''chores''), list_created_at = Some 1,
                    list_creator = None\<rparr>],
      todo_rows =
        [insert_Todolist 2 1 (Todolist_init 2 (py ''a'') 1 None None)
           \<lparr>is_finished := Some True, finished_at := Some 9\<rparr>,
         insert_Todolist 3 2 (Todolist_init 3 (py ''b'') 1 None None),
         insert_Todolist 4 3 (Todolist_init 4 (py ''c'') 1 None None)],
      pending = []\<rparr>
   \<and> map is_finished (owned_items
     \<lparr>user_rows = [],
      list_rows = [\<lparr>list_id = Some 1, title = Some (py ''chores''), list_created_at = Some 1,
                    list_creator = None\<rparr>],
      todo_rows =
        [insert_Todolist 2 1 (Todolist_init 2 (py ''a'') 1 None None)
           \<lparr>is_finished := Some True, finished_at := Some 9\<rparr>,
         insert_Todolist 3 2 (Todolist_init 3 (py ''b'') 1 None None),
         insert_Todolist 4 3 (Todolist_init 4 (py ''c'') 1 None None)],
      pending = []\<rparr>
     \<lparr>list_id = Some 1, title = Some (py ''chores''), list_created_at = Some 1,
       list_creator = None\<rparr>) = [Some True, Some False, Some False]
   \<and> todo_count
     \<lparr>user_rows = [],
      list_rows = [\<lparr>list_id = Some 1, title = Some (py ''chores''), list_created_at = Some 1,
                    list_creator = None\<rparr>],
      todo_rows =
        [insert_Todolist 2 1 (Todolist_init 2 (py ''a'') 1 None None)
           \<lparr>is_finished := Some True, finished_at := Some 9\<rparr>,
         insert_Todolist 3 2 (Todolist_init 3 (py ''b'') 1 None None),
         insert_Todolist 4 3 (Todolist_init 4 (py ''c'') 1 None None)],
      pending = []\<rparr>
     \<lparr>list_id = Some 1, title = Some (py ''chores''), list_created_at = Some 1,
       list_creator = None\<rparr> = 3
   \<and> finished_count
     \<lparr>user_rows = [],
      list_rows = [\<lparr>list_id = Some 1, title = Some (py ''chores''), list_created_at = Some 1,
                    list_creator = None\<rparr>],
      todo_rows =
        [insert_Todolist 2 1 (Todolist_init 2 (py ''a'') 1 None None)
           \<lparr>is_finished := Some True, finished_at := Some 9\<rparr>,
         insert_Todolist 3 2 (Todolist_init 3 (py ''b'') 1 None None),
         insert_Todolist 4 3 (Todolist_init 4 (py ''c'') 1 None None)],
      pending = []\<rparr>
     \<lparr>list_id = Some 1, title = Some (py ''chores''), list_created_at = Some 1,
       list_creator = None\<rparr> = 1
   \<and> open_count
     \<lparr>user_rows = [],
      list_rows = [\<lparr>list_id = Some 1, title = Some (py ''chores''), list_created_at = Some 1,
                    list_creator = None\<rparr>],
      todo_rows =
        [insert_Todolist 2 1 (Todolist_init 2 (py ''a'') 1 None None)
           \<lparr>is_finished := Some True, finished_at := Some 9\<rparr>,
         insert_Todolist 3 2 (Todolist_init 3 (py ''b'') 1 None None),
         insert_Todolist 4 3 (Todolist_init 4 (py ''c'') 1 None None)],
      pending = []\<rparr>
     \<lparr>list_id = Some 1, title = Some (py ''chores''), list_created_at = Some 1,
       list_creator = None\<rparr> = 2"
proof -
  let ?l0 = "\<lparr>list_id = None, title = Some (py ''chores''), list_created_at = Some 1,
      list_creator = None\<rparr>"
  let ?L = "\<lparr>list_id = Some 1, title = Some (py ''chores''), list_created_at = Some 1,
      list_creator = None\<rparr>"
  let ?a = "Todolist_init 2 (py ''a'') 1 None None"
  let ?b = "Todolist_init 3 (py ''b'') 1 None None"
  let ?c = "Todolist_init 4 (py ''c'') 1 None None"
  let ?A = "insert_Todolist 2 1 ?a"
  let ?A' = "?A\<lparr>is_finished := Some True, finished_at := Some 9\<rparr>"
  let ?B = "insert_Todolist 3 2 ?b"
  let ?C = "insert_Todolist 4 3 ?c"
  let ?db1 = "\<lparr>user_rows = [], list_rows = [?L], todo_rows = [], pending = []\<rparr>"
  let ?db2 = "\<lparr>user_rows = [], list_rows = [?L], todo_rows = [?A], pending = []\<rparr>"
  let ?db3 = "\<lparr>user_rows = [], list_rows = [?L], todo_rows = [?A, ?B], pending = []\<rparr>"
  let ?db4 = "\<lparr>user_rows = [], list_rows = [?L], todo_rows = [?A, ?B, ?C], pending = []\<rparr>"
  let ?db5 = "\<lparr>user_rows = [], list_rows = [?L], todo_rows = [?A', ?B, ?C], pending = []\<rparr>"
  have s1: "save 1 empty_session (ListE ?l0) = Inr (?db1, ListE ?l0)"
    by (simp add: save_def BaseModel_commit_def store_eval)
  have s2: "save 2 ?db1 (TodoE ?a) = Inr (?db2, TodoE ?a)"
    by (simp add: save_def BaseModel_commit_def store_eval Todolist_init_def)
  have s3: "save 3 ?db2 (TodoE ?b) = Inr (?db3, TodoE ?b)"
    by (simp add: save_def BaseModel_commit_def store_eval Todolist_init_def)
  have s4: "save 4 ?db3 (TodoE ?c) = Inr (?db4, TodoE ?c)"
    by (simp add: save_def BaseModel_commit_def store_eval Todolist_init_def)
  have s5: "save 9 ?db4 (TodoE ?A') = Inr (?db5, TodoE ?A')"
    by (simp add: save_def BaseModel_commit_def store_eval Todolist_init_def)
  have f: "finished 9 ?db4 ?A = Inr (?db5, ?A')"
    using s5 by (simp add: finished_def Let_def)
  have rA: "reachable ?A'"
    using r_finished [OF r_inserted [OF r_init] f] .
  have "reachable_session ?db1" using s_save_list [OF s_empty s1] .
  then have "reachable_session ?db2" using s_save_item [OF _ r_init s2] by blast
  then have "reachable_session ?db3" using s_save_item [OF _ r_init s3] by blast
  then have "reachable_session ?db4" using s_save_item [OF _ r_init s4] by blast
  then have r5: "reachable_session ?db5" using s_save_item [OF _ rA s5] by blast
  have owned: "owned_items ?db5 ?L = [?A', ?B, ?C]"
    by (simp add: owned_items_def insert_Todolist_def Todolist_init_def)
  have fin: "map is_finished [?A', ?B, ?C] = [Some True, Some False, Some False]"
    by (simp add: insert_Todolist_def Todolist_init_def bool_or_def)
  have h1: "\<forall>t \<in> set (owned_items ?db5 ?L). is_finished t \<noteq> None"
    unfolding owned by (auto simp: insert_Todolist_def Todolist_init_def bool_or_def)
  have h2: "length (owned_items ?db5 ?L) = 3"
    unfolding owned by simp
  have h3: "length (filter (\<lambda>t. is_finished t = Some True) (owned_items ?db5 ?L)) = 1"
    unfolding owned by (simp add: insert_Todolist_def Todolist_init_def bool_or_def)
  from TodoList_counts [of ?db5 ?L] h1 h2 h3
  have "todo_count ?db5 ?L = 3 \<and> finished_count ?db5 ?L = 1 \<and> open_count ?db5 ?L = 2"
    by blast
  with r5 owned fin show ?thesis by simp
qed

end
